theory Spec2Isabelle
  imports Main "HOL-Library.Word"
begin

section \<open>Go values used by the toolkit\<close>

text \<open>
  A Go \<open>error\<close> is an interface value. The toolkit tells errors apart by their dynamic
  type (\<open>errors.As\<close>), by identity with a sentinel (\<open>errors.Is\<close>, \<open>==\<close>) and by their text
  (\<open>err.Error()\<close>). The datatype keeps exactly what those three tests look at: the typed
  errors of \<open>encoding/json\<close> with the fields \<open>ReadJSON\<close> prints, the two sentinels of
  \<open>io\<close>, an error that is only a text (\<open>errors.New\<close>, \<open>fmt.Errorf\<close>; every other
  library error is seen through its text alone), and an error wrapping another one.
\<close>

datatype go_error =
    SyntaxError string int
  | UnmarshalTypeError string string int
  | InvalidUnmarshalError string
  | EOF
  | ErrUnexpectedEOF
  | ErrorString string
  | Wrapped string go_error

text \<open>A run-time panic ends the call without a return value, and so does the fatal error
  with which the runtime stops the program when the heap cannot supply an allocation.\<close>

datatype panic =
    MakeSliceLenOutOfRange
  | OutOfMemory
  | NilDereference
  | IndexOutOfRange nat nat

type_synonym byte = "8 word"

text \<open>The configuration struct \<open>Tools\<close>. Go's \<open>int\<close> fields are only compared, copied
  and printed, never computed with, so they are integers without wrap-around.\<close>

record Tools =
  MaxFileSize :: int
  AllowedFileTypes :: "string list"
  MaxJSONSize :: int
  AllowUnknownFields :: bool

text \<open>
  Every method has the receiver \<open>*Tools\<close>. A method is a function of the receiver's
  value \<open>t\<close>, its arguments and the state of the world it acts on, and returns its results
  together with the receiver's value after the call and the new state of the world.
\<close>

section \<open>The operating system and the libraries\<close>

text \<open>
  The methods act on the heap, the random source, the file system and the request through
  the runtime and the standard library. None of that code belongs to the repository, so
  it is a record of functions \<open>env\<close> over a state of the world \<open>'w\<close>; every theorem holds
  for all of them. An open file is named by what it was opened from: the part's header
  for \<open>hdr.Open()\<close>, the path for \<open>os.Create\<close>.
  \<^item> \<open>MaxAlloc\<close> is the runtime's constant \<open>maxAlloc\<close>, the largest number of bytes one
    allocation may have on the platform; \<open>Mallocgc nbytes w\<close> says whether the heap
    supplies \<open>nbytes\<close> bytes in the state \<open>w\<close>.
  \<^item> \<open>Prime bits w\<close> is \<open>rand.Prime(rand.Reader, bits)\<close>: the number drawn, or nothing
    when the call returns an error and a nil number.
\<close>

record FileHeader =
  Filename :: string
  Size :: int
  content :: "byte list"

text \<open>\<open>r.MultipartForm\<close>. \<open>File\<close> is a Go map; the list holds its entries in the order
  in which \<open>range\<close> visits them in this call.\<close>

record Form =
  Value :: "(string \<times> string list) list"
  File :: "(string \<times> FileHeader list) list"

record Request =
  ReqBody :: "byte list"
  ContentType :: string

record UploadedFile =
  NewFileName :: string
  OriginalFileName :: string
  FileSize :: int

record 'w sys =
  MaxAlloc :: nat
  Mallocgc :: "nat \<Rightarrow> 'w \<Rightarrow> bool"
  Prime :: "nat \<Rightarrow> 'w \<Rightarrow> nat option \<times> 'w"
  Stat :: "string \<Rightarrow> 'w \<Rightarrow> go_error option"
  IsNotExist :: "go_error option \<Rightarrow> bool"
  MkdirAll :: "string \<Rightarrow> nat \<Rightarrow> 'w \<Rightarrow> go_error option \<times> 'w"
  ParseMultipartForm :: "Request \<Rightarrow> int \<Rightarrow> 'w \<Rightarrow> (go_error + Form) \<times> 'w"
  Open :: "FileHeader \<Rightarrow> 'w \<Rightarrow> go_error option \<times> 'w"
  Read :: "FileHeader \<Rightarrow> nat \<Rightarrow> 'w \<Rightarrow> (byte list \<times> go_error option) \<times> 'w"
  Seek :: "FileHeader \<Rightarrow> int \<Rightarrow> int \<Rightarrow> 'w \<Rightarrow> go_error option \<times> 'w"
  Close :: "FileHeader \<Rightarrow> 'w \<Rightarrow> 'w"
  DetectContentType :: "byte list \<Rightarrow> string"
  EqualFold :: "string \<Rightarrow> string \<Rightarrow> bool"
  Ext :: "string \<Rightarrow> string"
  Join :: "string \<Rightarrow> string \<Rightarrow> string"
  Create :: "string \<Rightarrow> 'w \<Rightarrow> go_error option \<times> 'w"
  Copy :: "string \<Rightarrow> FileHeader \<Rightarrow> 'w \<Rightarrow> (int \<times> go_error option) \<times> 'w"

section \<open>RandomString\<close>

definition randomStringSource :: string where
  "randomStringSource = ''abcdefghijklmnopqrstuvwxyzABCDEFGHIJKLMNOPQRSTUVWXYZ0123456789_+''"

text \<open>\<open>p.Uint64()\<close> of a non-negative \<open>big.Int\<close>: its low 64 bits.\<close>

definition Uint64 :: "nat \<Rightarrow> nat" where
  "Uint64 p = p mod 2 ^ 64"

text \<open>An allocation of no bytes never fails.\<close>

definition alloc :: "'w sys \<Rightarrow> nat \<Rightarrow> 'w \<Rightarrow> bool" where
  "alloc env nbytes w \<longleftrightarrow> nbytes = 0 \<or> Mallocgc env nbytes w"

text \<open>
  The loop \<open>for i := range s\<close> over the \<open>n\<close> positions of the slice. The source discards
  the error of \<open>rand.Prime\<close>; when the call fails, \<open>p\<close> is nil and \<open>p.Uint64()\<close>
  dereferences it.
\<close>

primrec RandomString_loop :: "'w sys \<Rightarrow> nat \<Rightarrow> 'w \<Rightarrow> (panic + string) \<times> 'w" where
  "RandomString_loop env 0 w = (Inr [], w)"
| "RandomString_loop env (Suc k) w =
     (let r = randomStringSource
      in case Prime env (length r) w of
           (None, w1) \<Rightarrow> (Inl NilDereference, w1)
         | (Some p, w1) \<Rightarrow>
             (let x = Uint64 p;
                  y = length r;
                  c = r ! (x mod y)
              in case RandomString_loop env k w1 of
                   (Inl e, w2) \<Rightarrow> (Inl e, w2)
                 | (Inr cs, w2) \<Rightarrow> (Inr (c # cs), w2)))"

text \<open>
  \<open>make([]rune, n)\<close> panics with \<open>makeslice: len out of range\<close> when \<open>n\<close> is negative or
  the \<open>4 * n\<close> bytes of the slice are more than \<open>maxAlloc\<close>; otherwise the heap supplies
  them or the program stops. \<open>maxAlloc\<close> is a \<open>uintptr\<close>, so a product \<open>4 * n\<close> that
  overflows one is more than \<open>maxAlloc\<close> too. \<open>string(s)\<close> allocates the \<open>n\<close> bytes of
  the result.
\<close>

definition RandomString ::
  "'w sys \<Rightarrow> Tools \<Rightarrow> int \<Rightarrow> 'w \<Rightarrow> (panic + string) \<times> Tools \<times> 'w" where
  "RandomString env t n w =
     (if n < 0 \<or> 4 * n > int (MaxAlloc env) then (Inl MakeSliceLenOutOfRange, t, w)
      else if \<not> alloc env (4 * nat n) w then (Inl OutOfMemory, t, w)
      else case RandomString_loop env (nat n) w of
             (Inl e, w') \<Rightarrow> (Inl e, t, w')
           | (Inr s, w') \<Rightarrow>
               if \<not> alloc env (nat n) w' then (Inl OutOfMemory, t, w') else (Inr s, t, w'))"

section \<open>Slugify\<close>

text \<open>
  \<open>strings.ToLower\<close> and the regular expression both read a Go string as its sequence of
  code points, so a string is a list of runes here. For ASCII text the code points are the
  bytes.
\<close>

type_synonym rune = nat

definition runes :: "string \<Rightarrow> rune list" where
  "runes s = map of_char s"

text \<open>\<open>unicode.ToLower\<close>: the ASCII letters are shifted; every other rune is looked up in
  Unicode's case table \<open>tbl\<close>, which is not part of the repository.\<close>

definition unicode_ToLower :: "(rune \<Rightarrow> rune) \<Rightarrow> rune \<Rightarrow> rune" where
  "unicode_ToLower tbl r =
     (if r \<le> 127 then (if 65 \<le> r \<and> r \<le> 90 then r + 32 else r) else tbl r)"

definition strings_ToLower :: "(rune \<Rightarrow> rune) \<Rightarrow> rune list \<Rightarrow> rune list" where
  "strings_ToLower tbl s = map (unicode_ToLower tbl) s"

text \<open>The character class \<open>[^a-z\d]\<close> of the pattern compiled in \<open>Slugify\<close>.\<close>

definition re_class :: "rune \<Rightarrow> bool" where
  "re_class r = (\<not> ((97 \<le> r \<and> r \<le> 122) \<or> (48 \<le> r \<and> r \<le> 57)))"

text \<open>\<open>re.ReplaceAllString(src, repl)\<close> for the pattern \<open>[^a-z\d]+\<close>: scanning from the
  left, the longest run of class members starting at a member is one match.\<close>

function re_ReplaceAllString :: "rune list \<Rightarrow> rune list \<Rightarrow> rune list" where
  "re_ReplaceAllString [] repl = []"
| "re_ReplaceAllString (c # cs) repl =
     (if re_class c then repl @ re_ReplaceAllString (dropWhile re_class cs) repl
      else c # re_ReplaceAllString cs repl)"
  by pat_completeness auto
termination
  by (relation "measure (\<lambda>(src, repl). length src)")
     (auto simp: le_imp_less_Suc length_dropWhile_le)

text \<open>\<open>strings.Trim(s, cutset)\<close> for a cutset of one character: the trailing occurrences
  are cut, then the leading ones.\<close>

definition trimRightByte :: "rune list \<Rightarrow> rune \<Rightarrow> rune list" where
  "trimRightByte s c = rev (dropWhile (\<lambda>x. x = c) (rev s))"

definition trimLeftByte :: "rune list \<Rightarrow> rune \<Rightarrow> rune list" where
  "trimLeftByte s c = dropWhile (\<lambda>x. x = c) s"

definition strings_Trim :: "rune list \<Rightarrow> rune \<Rightarrow> rune list" where
  "strings_Trim s c = trimLeftByte (trimRightByte s c) c"

definition hyphen :: rune where
  "hyphen = 45"

definition Slugify :: "(rune \<Rightarrow> rune) \<Rightarrow> Tools \<Rightarrow> rune list \<Rightarrow> (go_error + rune list) \<times> Tools" where
  "Slugify tbl t s =
     (if s = [] then (Inl (ErrorString ''empty string not permitted''), t)
      else let slug = strings_Trim (re_ReplaceAllString (strings_ToLower tbl s) [hyphen]) hyphen
           in if length slug = 0
              then (Inl (ErrorString ''after removing unsafe characters, slug is zero length''), t)
              else (Inr slug, t))"

section \<open>CreateDirIfNotExist\<close>

definition CreateDirIfNotExist ::
  "'w sys \<Rightarrow> Tools \<Rightarrow> string \<Rightarrow> 'w \<Rightarrow> go_error option \<times> Tools \<times> 'w" where
  "CreateDirIfNotExist env t path w =
     (let mode = 493 in
      if IsNotExist env (Stat env path w)
      then (case MkdirAll env path mode w of
              (Some err, w') \<Rightarrow> (Some err, t, w')
            | (None, w') \<Rightarrow> (None, t, w'))
      else (None, t, w))"

section \<open>UploadFiles and UploadOneFile\<close>

text \<open>\<open>buff := make([]byte, 512)\<close> after \<open>infile.Read(buff)\<close> has delivered \<open>bs\<close>: the bytes
  read, followed by the zero bytes the buffer was made with. The source does not keep the
  number of bytes read.\<close>

definition sniff_buffer :: "byte list \<Rightarrow> byte list" where
  "sniff_buffer bs = take 512 bs @ replicate (512 - length (take 512 bs)) 0"

text \<open>The flag \<open>allowed\<close> as the closure computes it from the sniffed type.\<close>

definition fileTypeAllowed :: "'w sys \<Rightarrow> Tools \<Rightarrow> string \<Rightarrow> bool" where
  "fileTypeAllowed env t fileType =
     (if length (AllowedFileTypes t) > 0
      then foldl (\<lambda>allowed x. if EqualFold env fileType x then True else allowed)
             False (AllowedFileTypes t)
      else True)"

text \<open>
  The closure called for every file header, in two parts. \<open>store_part\<close> is what follows
  the type check: rewind, choose the name, create the file, copy, append. Every error
  return of the closure is \<open>return nil, err\<close>. \<open>outfile\<close> is still nil when
  \<open>defer outfile.Close()\<close> evaluates it, so that deferred call closes nothing.
\<close>

definition store_part ::
  "'w sys \<Rightarrow> Tools \<Rightarrow> string \<Rightarrow> bool \<Rightarrow> FileHeader \<Rightarrow> UploadedFile list \<Rightarrow> 'w
     \<Rightarrow> (panic + UploadedFile list \<times> go_error option) \<times> Tools \<times> 'w" where
  "store_part env t uploadDir renameFile hdr uploadedFiles w =
     (case Seek env hdr 0 0 w of
        (Some err, w1) \<Rightarrow> (Inr ([], Some err), t, w1)
      | (None, w1) \<Rightarrow>
          (case (if renameFile
                 then (case RandomString env t 25 w1 of
                         (Inl p, t1, w2) \<Rightarrow> (Inl p, t1, w2)
                       | (Inr s, t1, w2) \<Rightarrow> (Inr (s @ Ext env (Filename hdr)), t1, w2))
                 else (Inr (Filename hdr), t, w1)) of
             (Inl p, t1, w2) \<Rightarrow> (Inl p, t1, w2)
           | (Inr newFileName, t1, w2) \<Rightarrow>
               (case Create env (Join env uploadDir newFileName) w2 of
                  (Some err, w3) \<Rightarrow> (Inr ([], Some err), t1, w3)
                | (None, w3) \<Rightarrow>
                    (case Copy env (Join env uploadDir newFileName) hdr w3 of
                       ((fileSize, Some err), w4) \<Rightarrow> (Inr ([], Some err), t1, w4)
                     | ((fileSize, None), w4) \<Rightarrow>
                         (Inr (uploadedFiles @
                                 [\<lparr>NewFileName = newFileName,
                                   OriginalFileName = Filename hdr,
                                   FileSize = fileSize\<rparr>], None), t1, w4)))))"

definition upload_part ::
  "'w sys \<Rightarrow> Tools \<Rightarrow> string \<Rightarrow> bool \<Rightarrow> FileHeader \<Rightarrow> UploadedFile list \<Rightarrow> 'w
     \<Rightarrow> (panic + UploadedFile list \<times> go_error option) \<times> Tools \<times> 'w" where
  "upload_part env t uploadDir renameFile hdr uploadedFiles w =
     (case Open env hdr w of
        (Some err, w1) \<Rightarrow> (Inr ([], Some err), t, w1)
      | (None, w1) \<Rightarrow>
          (let (res, t', w') =
                 (case Read env hdr 512 w1 of
                    ((bs, Some err), w2) \<Rightarrow> (Inr ([], Some err), t, w2)
                  | ((bs, None), w2) \<Rightarrow>
                      (let buff = sniff_buffer bs;
                           fileType = DetectContentType env buff
                       in if \<not> fileTypeAllowed env t fileType
                          then (Inr ([], Some (ErrorString
                                  ''the uploaded file type is not permitted'')), t, w2)
                          else store_part env t uploadDir renameFile hdr uploadedFiles w2))
           in (res, t', Close env hdr w')))"

text \<open>The two nested \<open>range\<close> loops. The closure's first result is assigned to
  \<open>uploadedFiles\<close> before the error is looked at, and \<open>return uploadedFiles, err\<close> returns
  what was assigned.\<close>

fun upload_headers ::
  "'w sys \<Rightarrow> Tools \<Rightarrow> string \<Rightarrow> bool \<Rightarrow> FileHeader list \<Rightarrow> UploadedFile list \<Rightarrow> 'w
     \<Rightarrow> (panic + UploadedFile list \<times> go_error option) \<times> Tools \<times> 'w" where
  "upload_headers env t uploadDir renameFile [] uploadedFiles w =
     (Inr (uploadedFiles, None), t, w)"
| "upload_headers env t uploadDir renameFile (hdr # hdrs) uploadedFiles w =
     (case upload_part env t uploadDir renameFile hdr uploadedFiles w of
        (Inl p, t1, w1) \<Rightarrow> (Inl p, t1, w1)
      | (Inr (uploadedFiles1, Some err), t1, w1) \<Rightarrow> (Inr (uploadedFiles1, Some err), t1, w1)
      | (Inr (uploadedFiles1, None), t1, w1) \<Rightarrow>
          upload_headers env t1 uploadDir renameFile hdrs uploadedFiles1 w1)"

fun upload_fields ::
  "'w sys \<Rightarrow> Tools \<Rightarrow> string \<Rightarrow> bool \<Rightarrow> (string \<times> FileHeader list) list
     \<Rightarrow> UploadedFile list \<Rightarrow> 'w
     \<Rightarrow> (panic + UploadedFile list \<times> go_error option) \<times> Tools \<times> 'w" where
  "upload_fields env t uploadDir renameFile [] uploadedFiles w =
     (Inr (uploadedFiles, None), t, w)"
| "upload_fields env t uploadDir renameFile ((key, fHeaders) # rest) uploadedFiles w =
     (case upload_headers env t uploadDir renameFile fHeaders uploadedFiles w of
        (Inl p, t1, w1) \<Rightarrow> (Inl p, t1, w1)
      | (Inr (uploadedFiles1, Some err), t1, w1) \<Rightarrow> (Inr (uploadedFiles1, Some err), t1, w1)
      | (Inr (uploadedFiles1, None), t1, w1) \<Rightarrow>
          upload_fields env t1 uploadDir renameFile rest uploadedFiles1 w1)"

text \<open>\<open>ParseMultipartForm\<close> returns the form it has stored in \<open>r.MultipartForm\<close>, or its
  error. The assignment to \<open>t.MaxFileSize\<close> goes through the pointer receiver.\<close>

definition UploadFiles ::
  "'w sys \<Rightarrow> Tools \<Rightarrow> Request \<Rightarrow> string \<Rightarrow> bool list \<Rightarrow> 'w
     \<Rightarrow> (panic + UploadedFile list \<times> go_error option) \<times> Tools \<times> 'w" where
  "UploadFiles env t r uploadDir rename w =
     (let renameFile = (if length rename > 0 then rename ! 0 else True);
          uploadedFiles = [];
          t1 = (if MaxFileSize t = 0 then t\<lparr>MaxFileSize := 1024 * 1024 * 1024\<rparr> else t)
      in case CreateDirIfNotExist env t1 uploadDir w of
           (Some err, t2, w1) \<Rightarrow> (Inr ([], Some err), t2, w1)
         | (None, t2, w1) \<Rightarrow>
             (case ParseMultipartForm env r (MaxFileSize t2) w1 of
                (Inl err, w2) \<Rightarrow>
                  (Inr ([], Some (ErrorString ''the uploaded file is too big'')), t2, w2)
              | (Inr form, w2) \<Rightarrow>
                  upload_fields env t2 uploadDir renameFile (File form) uploadedFiles w2))"

text \<open>\<open>files[0]\<close> on an empty slice panics with an index out of range.\<close>

definition UploadOneFile ::
  "'w sys \<Rightarrow> Tools \<Rightarrow> Request \<Rightarrow> string \<Rightarrow> bool list \<Rightarrow> 'w
     \<Rightarrow> (panic + UploadedFile option \<times> go_error option) \<times> Tools \<times> 'w" where
  "UploadOneFile env t r uploadDir rename w =
     (let renameFile = (if length rename > 0 then rename ! 0 else True)
      in case UploadFiles env t r uploadDir [renameFile] w of
           (Inl p, t1, w1) \<Rightarrow> (Inl p, t1, w1)
         | (Inr (files, Some err), t1, w1) \<Rightarrow> (Inr (None, Some err), t1, w1)
         | (Inr (files, None), t1, w1) \<Rightarrow>
             (if 0 < length files then (Inr (Some (files ! 0), None), t1, w1)
              else (Inl (IndexOutOfRange 0 (length files)), t1, w1)))"

section \<open>ReadJSON\<close>

text \<open>\<open>err.Error()\<close>, \<open>errors.Is\<close> and \<open>errors.As\<close>. The last two walk down the chain of
  wrapped errors; \<open>errors.As\<close> stops at the first error of the type asked for.\<close>

fun Error :: "go_error \<Rightarrow> string" where
  "Error (SyntaxError msg offset) = msg"
| "Error (UnmarshalTypeError msg field offset) = msg"
| "Error (InvalidUnmarshalError msg) = msg"
| "Error EOF = ''EOF''"
| "Error ErrUnexpectedEOF = ''unexpected EOF''"
| "Error (ErrorString s) = s"
| "Error (Wrapped msg err) = msg"

fun errors_Is :: "go_error \<Rightarrow> go_error \<Rightarrow> bool" where
  "errors_Is (Wrapped msg err) target = (Wrapped msg err = target \<or> errors_Is err target)"
| "errors_Is err target = (err = target)"

fun as_SyntaxError :: "go_error \<Rightarrow> int option" where
  "as_SyntaxError (SyntaxError msg offset) = Some offset"
| "as_SyntaxError (Wrapped msg err) = as_SyntaxError err"
| "as_SyntaxError err = None"

fun as_UnmarshalTypeError :: "go_error \<Rightarrow> (string \<times> int) option" where
  "as_UnmarshalTypeError (UnmarshalTypeError msg field offset) = Some (field, offset)"
| "as_UnmarshalTypeError (Wrapped msg err) = as_UnmarshalTypeError err"
| "as_UnmarshalTypeError err = None"

fun as_InvalidUnmarshalError :: "go_error \<Rightarrow> bool" where
  "as_InvalidUnmarshalError (InvalidUnmarshalError msg) = True"
| "as_InvalidUnmarshalError (Wrapped msg err) = as_InvalidUnmarshalError err"
| "as_InvalidUnmarshalError err = False"

text \<open>The verb \<open>%d\<close> of \<open>fmt\<close> on an integer, and the two functions of \<open>strings\<close>.\<close>

definition digit :: "nat \<Rightarrow> char" where
  "digit d = ''0123456789'' ! d"

fun decimal :: "nat \<Rightarrow> string" where
  "decimal n =
     (if n < 10 then [digit n]
      else decimal (n div 10) @ [digit (n mod 10)])"

declare decimal.simps [simp del]

definition Sprint_d :: "int \<Rightarrow> string" where
  "Sprint_d i = (if i < 0 then CHR ''-'' # decimal (nat (- i)) else decimal (nat i))"

definition HasPrefix :: "string \<Rightarrow> string \<Rightarrow> bool" where
  "HasPrefix s p = (take (length p) s = p)"

definition TrimPrefix :: "string \<Rightarrow> string \<Rightarrow> string" where
  "TrimPrefix s p = (if HasPrefix s p then drop (length p) s else s)"

text \<open>
  The decoder of \<open>encoding/json\<close> over the reader of \<open>http.MaxBytesReader\<close> is library
  code: \<open>'b\<close> is the limited body, \<open>'d\<close> the state of the decoder (its input, what it has
  read, the value it has filled in). \<open>Decode\<close> is told which of the two targets of
  \<open>ReadJSON\<close> it decodes into. \<open>Quote\<close> is the verb \<open>%q\<close>.
\<close>

datatype target = IntoData | IntoEmptyStruct

record ('b, 'd) json_env =
  MaxBytesReader :: "byte list \<Rightarrow> int \<Rightarrow> 'b"
  NewDecoder :: "'b \<Rightarrow> 'd"
  DisallowUnknownFields :: "'d \<Rightarrow> 'd"
  Decode :: "'d \<Rightarrow> target \<Rightarrow> go_error option \<times> 'd"
  Quote :: "string \<Rightarrow> string"

text \<open>The \<open>switch\<close> on the error of the first \<open>Decode\<close>, case by case in the source's
  order.\<close>

definition decode_failure :: "('b, 'd) json_env \<Rightarrow> int \<Rightarrow> go_error \<Rightarrow> go_error" where
  "decode_failure env maxBytes err =
     (case as_SyntaxError err of
        Some offset \<Rightarrow>
          ErrorString (''body contains badly-formed JSON (at character '' @ Sprint_d offset @ '')'')
      | None \<Rightarrow>
          if errors_Is err ErrUnexpectedEOF then ErrorString ''body contains badly-formed JSON''
          else (case as_UnmarshalTypeError err of
             Some (field, offset) \<Rightarrow>
               if field \<noteq> []
               then ErrorString (''body contains incorrect JSON type for field '' @ Quote env field)
               else ErrorString (''body contains incorrect JSON type (at character '' @ Sprint_d offset)
           | None \<Rightarrow>
               if errors_Is err EOF then ErrorString ''body must not be empty''
               else if HasPrefix (Error err) ''json: unknown field''
               then ErrorString (''body contains unknown key '' @
                      TrimPrefix (Error err) ''json: unknown field'')
               else if Error err = ''http: request body too large''
               then ErrorString (''body must not be larger than '' @ Sprint_d maxBytes @ '' bytes'')
               else if as_InvalidUnmarshalError err
               then ErrorString (''error unmarshaling JSON: '' @ Error err)
               else err))"

text \<open>The limit and the decoder \<open>ReadJSON\<close> sets up before it decodes.\<close>

definition maxBytes_of :: "Tools \<Rightarrow> int" where
  "maxBytes_of t = (if MaxJSONSize t \<noteq> 0 then MaxJSONSize t else 1024 * 1024)"

definition body_decoder :: "('b, 'd) json_env \<Rightarrow> Tools \<Rightarrow> Request \<Rightarrow> 'd" where
  "body_decoder env t r =
     (let body = MaxBytesReader env (ReqBody r) (maxBytes_of t);
          dec = NewDecoder env body
      in if \<not> AllowUnknownFields t then DisallowUnknownFields env dec else dec)"

definition ReadJSON ::
  "('b, 'd) json_env \<Rightarrow> Tools \<Rightarrow> Request \<Rightarrow> go_error option \<times> Tools \<times> 'd" where
  "ReadJSON env t r =
     (case Decode env (body_decoder env t r) IntoData of
        (Some err, dec1) \<Rightarrow> (Some (decode_failure env (maxBytes_of t) err), t, dec1)
      | (None, dec1) \<Rightarrow>
          (case Decode env dec1 IntoEmptyStruct of
             (err, dec2) \<Rightarrow>
               if err \<noteq> Some EOF
               then (Some (ErrorString ''body must contain only one JSON value''), t, dec2)
               else (None, t, dec2)))"

section \<open>DownloadStaticFile, WriteJSON and ErrorJSON\<close>

text \<open>
  An \<open>http.ResponseWriter\<close>: the header map the methods assign to, and the rest of the
  writer (status line and body sent so far), which only the library touches.
  \<open>json.Marshal\<close> is passed as the function \<open>marshal\<close>, since it is called on values of
  different types.
\<close>

record 'c ResponseWriter =
  Header :: "string \<rightharpoonup> string list"
  conn :: 'c

record ('c, 'w) http_env =
  WriteHeader :: "int \<Rightarrow> 'c ResponseWriter \<Rightarrow> 'c ResponseWriter"
  Write :: "byte list \<Rightarrow> 'c ResponseWriter \<Rightarrow> (int \<times> go_error option) \<times> 'c ResponseWriter"
  path_Join :: "string \<Rightarrow> string \<Rightarrow> string"
  ServeFile :: "'c ResponseWriter \<Rightarrow> Request \<Rightarrow> string \<Rightarrow> 'w \<Rightarrow> 'c ResponseWriter \<times> 'w"

definition DownloadStaticFile ::
  "('c, 'w) http_env \<Rightarrow> Tools \<Rightarrow> 'c ResponseWriter \<Rightarrow> Request \<Rightarrow> string \<Rightarrow> string \<Rightarrow> string
     \<Rightarrow> 'w \<Rightarrow> 'c ResponseWriter \<times> Tools \<times> 'w" where
  "DownloadStaticFile env t w r p file displayName world =
     (let fp = path_Join env p file;
          w1 = w\<lparr>Header := (Header w)(''Content-Disposition'' \<mapsto>
                  [''attachment; filename='' @ [CHR 0x22] @ displayName @ [CHR 0x22]])\<rparr>;
          (w2, world') = ServeFile env w1 r fp world
      in (w2, t, world'))"

record 'a JSONResponse =
  Error' :: bool
  Message :: string
  Data :: "'a option"

text \<open>Ranging over \<open>headers[0]\<close> assigns every entry of that map; the keys are distinct,
  so the order of the assignments does not matter.\<close>

definition WriteJSON ::
  "('v \<Rightarrow> go_error + byte list) \<Rightarrow> ('c, 'w) http_env \<Rightarrow> Tools \<Rightarrow> 'c ResponseWriter \<Rightarrow> int \<Rightarrow> 'v
     \<Rightarrow> (string \<rightharpoonup> string list) list \<Rightarrow> go_error option \<times> Tools \<times> 'c ResponseWriter" where
  "WriteJSON marshal env t w status data headers =
     (case marshal data of
        Inl err \<Rightarrow> (Some err, t, w)
      | Inr out \<Rightarrow>
          (let w1 = (if length headers > 0 then w\<lparr>Header := Header w ++ (headers ! 0)\<rparr> else w);
               w2 = w1\<lparr>Header := (Header w1)(''Content-Type'' \<mapsto> [''application/json''])\<rparr>;
               w3 = WriteHeader env status w2
           in case Write env out w3 of
                ((n, Some err), w4) \<Rightarrow> (Some err, t, w4)
              | ((n, None), w4) \<Rightarrow> (None, t, w4)))"

definition StatusBadRequest :: int where
  "StatusBadRequest = 400"

definition ErrorJSON ::
  "('a JSONResponse \<Rightarrow> go_error + byte list) \<Rightarrow> ('c, 'w) http_env \<Rightarrow> Tools \<Rightarrow> 'c ResponseWriter
     \<Rightarrow> go_error \<Rightarrow> int list \<Rightarrow> go_error option \<times> Tools \<times> 'c ResponseWriter" where
  "ErrorJSON marshal env t w err status =
     (let statusCode = (if length status > 0 then status ! 0 else StatusBadRequest);
          payload = \<lparr>Error' = True, Message = Error err, Data = None\<rparr>
      in WriteJSON marshal env t w statusCode payload [])"

section \<open>PushJSONToRemote\<close>

text \<open>
  The body of a response is an \<open>io.ReadCloser\<close>: the bytes not yet read and whether it has
  been closed. \<open>Close\<close> closes it; a closed body cannot be read any more. A
  \<open>*http.Response\<close> is a pointer, so the caller sees the response as the deferred call has
  left it.
\<close>

record ReadCloser =
  unread :: "byte list"
  closed :: bool

record Response =
  StatusCode :: int
  Body :: ReadCloser

record ClientRequest =
  Method :: string
  URL :: string
  Payload :: "byte list"
  ReqHeader :: "string \<rightharpoonup> string list"

record ('k, 'w) client_env =
  NewClient :: 'k
  NewRequest :: "string \<Rightarrow> string \<Rightarrow> byte list \<Rightarrow> go_error + ClientRequest"
  Do :: "'k \<Rightarrow> ClientRequest \<Rightarrow> 'w \<Rightarrow> (go_error + Response) \<times> 'w"

definition Body_Close :: "Response \<Rightarrow> Response" where
  "Body_Close response = response\<lparr>Body := (Body response)\<lparr>closed := True\<rparr>\<rparr>"

definition PushJSONToRemote ::
  "('v \<Rightarrow> go_error + byte list) \<Rightarrow> ('k, 'w) client_env \<Rightarrow> Tools \<Rightarrow> string \<Rightarrow> 'v \<Rightarrow> 'k list \<Rightarrow> 'w
     \<Rightarrow> (Response option \<times> int \<times> go_error option) \<times> Tools \<times> 'w" where
  "PushJSONToRemote marshal env t uri data client w =
     (case marshal data of
        Inl err \<Rightarrow> ((None, 0, Some err), t, w)
      | Inr jsonData \<Rightarrow>
          (let httpClient = (if length client > 0 then client ! 0 else NewClient env)
           in case NewRequest env ''Post'' uri jsonData of
                Inl err \<Rightarrow> ((None, 0, Some err), t, w)
              | Inr request \<Rightarrow>
                  (let request1 = request\<lparr>ReqHeader :=
                         (ReqHeader request)(''Content-Type'' \<mapsto> [''application/json''])\<rparr>
                   in case Do env httpClient request1 w of
                        (Inl err, w1) \<Rightarrow> ((None, 0, Some err), t, w1)
                      | (Inr response, w1) \<Rightarrow>
                          ((Some (Body_Close response), StatusCode response, None), t, w1))))"

section \<open>The specification's reading of Slugify\<close>

text \<open>
  The specification describes the slug in three steps: lower-case the text, replace every
  run of one or more characters outside \<open>[a-z0-9]\<close> by a single hyphen, trim the hyphens
  at both ends. These definitions follow that wording, each by recursion over the text
  and without the library functions of the source: a character outside the class that is
  followed by another one is dropped, the last one of its run becomes the hyphen.
\<close>

fun spec_collapse_runs :: "rune list \<Rightarrow> rune list" where
  "spec_collapse_runs [] = []"
| "spec_collapse_runs [c] = (if re_class c then [hyphen] else [c])"
| "spec_collapse_runs (c # d # cs) =
     (if re_class c \<and> re_class d then spec_collapse_runs (d # cs)
      else if re_class c then hyphen # spec_collapse_runs (d # cs)
      else c # spec_collapse_runs (d # cs))"

primrec spec_strip_leading :: "rune list \<Rightarrow> rune list" where
  "spec_strip_leading [] = []"
| "spec_strip_leading (c # cs) = (if c = hyphen then spec_strip_leading cs else c # cs)"

primrec spec_strip_trailing :: "rune list \<Rightarrow> rune list" where
  "spec_strip_trailing [] = []"
| "spec_strip_trailing (c # cs) =
     (let r = spec_strip_trailing cs in if c = hyphen \<and> r = [] then [] else c # r)"

definition spec_slug :: "(rune \<Rightarrow> rune) \<Rightarrow> rune list \<Rightarrow> rune list" where
  "spec_slug tbl s =
     spec_strip_leading (spec_strip_trailing (spec_collapse_runs (strings_ToLower tbl s)))"

text \<open>The Japanese sentence of the repository's slug tests, as code points.\<close>

definition japanese_sentence :: "rune list" where
  "japanese_sentence =
     [20170, 12371, 12381, 12377, 12409, 12390, 12398, 21892, 33391, 12394,
      30007, 24615, 12398, 12383, 12417, 12398, 26178, 12391, 12377]"

section \<open>Values for running the model\<close>

text \<open>The zero value of the struct, \<open>var testTools Tools\<close> in the tests.\<close>

definition zero_Tools :: Tools where
  "zero_Tools =
     \<lparr>MaxFileSize = 0, AllowedFileTypes = [], MaxJSONSize = 0, AllowUnknownFields = False\<rparr>"

text \<open>The characters of \<open>randomStringSource\<close> at the odd indices.\<close>

definition odd_positions :: string where
  "odd_positions = ''bdfhjlnprtvxzBDFHJLNPRTVXZ13579+''"

text \<open>What the library promises of \<open>rand.Prime(rand.Reader, bits)\<close>: a prime number of
  exactly that many bits.\<close>

definition prime_of_bits :: "nat \<Rightarrow> nat \<Rightarrow> bool" where
  "prime_of_bits bits p \<longleftrightarrow>
     2 ^ (bits - 1) \<le> p \<and> p < 2 ^ bits \<and> (\<forall>d\<in>{1..p}. d dvd p \<longrightarrow> d = 1 \<or> d = p)"

text \<open>A random source that always draws \<open>2^64 - 59\<close>, the largest prime of 64 bits.\<close>

definition constant_source :: "nat \<Rightarrow> 'w \<Rightarrow> nat option \<times> 'w" where
  "constant_source bits w = (Some 18446744073709551557, w)"

text \<open>
  An environment in memory. The world is the list of the files on disk, each with its
  path and bytes. \<open>maxAlloc\<close> is \<open>2^48\<close>, its value on linux/amd64, and the heap supplies
  up to 1 GiB. The upload directory exists, every part opens, an empty part reads as
  \<open>io.EOF\<close>. \<open>EqualFold\<close> folds the ASCII letters. The sniffer knows two rules of
  \<open>http.DetectContentType\<close>: data that begins with the PNG signature is \<open>image/png\<close>,
  and other data is plain text unless one of its first 512 bytes is a binary byte (a
  control character that text does not contain, the zero byte among them).
\<close>

definition png_magic :: "byte list" where
  "png_magic = [0x89, 0x50, 0x4E, 0x47, 0x0D, 0x0A, 0x1A, 0x0A]"

definition binary_byte :: "byte \<Rightarrow> bool" where
  "binary_byte b \<longleftrightarrow>
     b \<le> 0x08 \<or> b = 0x0B \<or> (0x0E \<le> b \<and> b \<le> 0x1A) \<or> (0x1C \<le> b \<and> b \<le> 0x1F)"

definition sniff :: "byte list \<Rightarrow> string" where
  "sniff data =
     (if take 8 data = png_magic then ''image/png''
      else if \<exists>b\<in>set (take 512 data). binary_byte b then ''application/octet-stream''
      else ''text/plain; charset=utf-8'')"

definition fold_char :: "char \<Rightarrow> char" where
  "fold_char c =
     (case map_of (zip ''ABCDEFGHIJKLMNOPQRSTUVWXYZ'' ''abcdefghijklmnopqrstuvwxyz'') c of
        Some l \<Rightarrow> l
      | None \<Rightarrow> c)"

definition mem_sys :: "Form \<Rightarrow> (string \<times> byte list) list sys" where
  "mem_sys form =
     \<lparr>MaxAlloc = 281474976710656,
      Mallocgc = (\<lambda>nbytes w. nbytes \<le> 1073741824),
      Prime = constant_source,
      Stat = (\<lambda>path w. None),
      IsNotExist = (\<lambda>err. err = Some (ErrorString ''file does not exist'')),
      MkdirAll = (\<lambda>path mode w. (None, w)),
      ParseMultipartForm = (\<lambda>r maxMemory w. (Inr form, w)),
      Open = (\<lambda>hdr w. (None, w)),
      Read = (\<lambda>hdr n w.
        (if content hdr = [] then ([], Some EOF) else (take n (content hdr), None), w)),
      Seek = (\<lambda>hdr offset whence w. (None, w)),
      Close = (\<lambda>hdr w. w),
      DetectContentType = sniff,
      EqualFold = (\<lambda>a b. map fold_char a = map fold_char b),
      Ext = (\<lambda>name.
        if CHR ''.'' \<in> set name
        then CHR ''.'' # rev (takeWhile (\<lambda>c. c \<noteq> CHR ''.'') (rev name)) else []),
      Join = (\<lambda>dir name. dir @ ''/'' @ name),
      Create = (\<lambda>path w. (None, w @ [(path, [])])),
      Copy = (\<lambda>dst src w.
        ((int (length (content src)), None),
         map (\<lambda>(p, b). if p = dst then (p, content src) else (p, b)) w))\<rparr>"

definition img_png :: FileHeader where
  "img_png = \<lparr>Filename = ''img.png'', Size = 10, content = png_magic @ [0, 0]\<rparr>"

definition notes_txt :: FileHeader where
  "notes_txt =
     \<lparr>Filename = ''notes.txt'', Size = 5, content = [0x68, 0x65, 0x6C, 0x6C, 0x6F]\<rparr>"

definition two_files :: Form where
  "two_files = \<lparr>Value = [], File = [(''file'', [img_png, notes_txt])]\<rparr>"

definition one_note :: Form where
  "one_note = \<lparr>Value = [], File = [(''file'', [notes_txt])]\<rparr>"

definition no_files :: Form where
  "no_files = \<lparr>Value = [(''name'', [''x''])], File = []\<rparr>"

definition some_request :: Request where
  "some_request = \<lparr>ReqBody = [], ContentType = ''multipart/form-data''\<rparr>"

definition text_only :: Tools where
  "text_only =
     \<lparr>MaxFileSize = 0, AllowedFileTypes = [''text/plain; charset=utf-8''], MaxJSONSize = 0,
      AllowUnknownFields = False\<rparr>"

definition png_only :: Tools where
  "png_only =
     \<lparr>MaxFileSize = 0, AllowedFileTypes = [''image/PNG''], MaxJSONSize = 0,
      AllowUnknownFields = False\<rparr>"

text \<open>
  The decoder of \<open>encoding/json\<close> on four inputs, as a table from the body and the limit
  of the reader to the answers of the successive calls of \<open>Decode\<close>; after the last
  answer listed, \<open>Decode\<close> returns \<open>io.EOF\<close>. Unknown fields are disallowed and the
  target of the first call is the struct of the repository's tests, with the one field
  \<open>foo\<close>.
  \<^item> \<open>hello world\<close>, limit 5: the first byte cannot begin a JSON value, and the decoder
    reports it, at offset 1, before the reader comes to its limit.
  \<^item> \<open>{"foo": "bar"}\<close>, limit 5: the value is not complete within five bytes, and the
    decoder returns the reader's error.
  \<^item> \<open>{"foo": "bar"}\<close>, limit 1048576: one value, then the end of the input.
  \<^item> \<open>{"foo": "1"}{"foo": "bar"}\<close>, limit 1048576: a first value, then a second one,
    whose field the empty struct does not have.
\<close>

definition hello_world :: Request where
  "hello_world =
     \<lparr>ReqBody = [0x68, 0x65, 0x6C, 0x6C, 0x6F, 0x20, 0x77, 0x6F, 0x72, 0x6C, 0x64],
      ContentType = ''application/json''\<rparr>"

definition foo_bar :: Request where
  "foo_bar =
     \<lparr>ReqBody = [0x7B, 0x22, 0x66, 0x6F, 0x6F, 0x22, 0x3A, 0x20, 0x22, 0x62, 0x61, 0x72,
                 0x22, 0x7D],
      ContentType = ''application/json''\<rparr>"

definition two_values :: Request where
  "two_values =
     \<lparr>ReqBody = [0x7B, 0x22, 0x66, 0x6F, 0x6F, 0x22, 0x3A, 0x20, 0x22, 0x31, 0x22, 0x7D,
                 0x7B, 0x22, 0x66, 0x6F, 0x6F, 0x22, 0x3A, 0x20, 0x22, 0x62, 0x61, 0x72,
                 0x22, 0x7D],
      ContentType = ''application/json''\<rparr>"

definition limit_5 :: Tools where
  "limit_5 =
     \<lparr>MaxFileSize = 0, AllowedFileTypes = [], MaxJSONSize = 5, AllowUnknownFields = False\<rparr>"

definition invalid_h :: go_error where
  "invalid_h =
     SyntaxError (''invalid character '' @ [CHR 0x27, CHR ''h'', CHR 0x27] @
       '' looking for beginning of value'') 1"

definition too_large :: go_error where
  "too_large = ErrorString ''http: request body too large''"

definition unknown_foo :: go_error where
  "unknown_foo = ErrorString (''json: unknown field '' @ [CHR 0x22] @ ''foo'' @ [CHR 0x22])"

definition recorded_answers :: "((byte list \<times> int) \<times> go_error option list) list" where
  "recorded_answers =
     [((ReqBody hello_world, 5), [Some invalid_h]),
      ((ReqBody foo_bar, 5), [Some too_large]),
      ((ReqBody foo_bar, 1048576), [None]),
      ((ReqBody two_values, 1048576), [None, Some unknown_foo])]"

definition recorded_json :: "(byte list \<times> int, go_error option list) json_env" where
  "recorded_json =
     \<lparr>MaxBytesReader = (\<lambda>body n. (body, n)),
      NewDecoder = (\<lambda>limited.
        case map_of recorded_answers limited of Some answers \<Rightarrow> answers | None \<Rightarrow> []),
      DisallowUnknownFields = (\<lambda>dec. dec),
      Decode = (\<lambda>dec target. case dec of [] \<Rightarrow> (Some EOF, []) | a # rest \<Rightarrow> (a, rest)),
      Quote = (\<lambda>s. [CHR 0x22] @ s @ [CHR 0x22])\<rparr>"

text \<open>A client whose server answers 200 with the body \<open>ok\<close>, open as \<open>Do\<close> hands it
  over.\<close>

definition ok_response :: Response where
  "ok_response = \<lparr>StatusCode = 200, Body = \<lparr>unread = [0x6F, 0x6B], closed = False\<rparr>\<rparr>"

definition test_client :: "(unit, nat) client_env" where
  "test_client =
     \<lparr>NewClient = (),
      NewRequest = (\<lambda>method url body.
        Inr \<lparr>Method = method, URL = url, Payload = body, ReqHeader = Map.empty\<rparr>),
      Do = (\<lambda>client request w. (Inr ok_response, Suc w))\<rparr>"

section \<open>Properties of RandomString\<close>

lemma alphabet_length: "length randomStringSource = 64"
  by (simp add: randomStringSource_def)

lemma RandomString_receiver:
  "RandomString env t n w = (res, t', w') \<Longrightarrow> t' = t"
  by (auto simp: RandomString_def split: if_splits prod.splits sum.splits)





text \<open>A prime of at least three bits is odd, so every number \<open>RandomString\<close> draws with
  \<open>rand.Prime(rand.Reader, 64)\<close> is odd.\<close>

lemma prime_of_bits_odd: "3 \<le> bits \<Longrightarrow> prime_of_bits bits p \<Longrightarrow> odd p"
proof (rule ccontr)
  assume b: "3 \<le> bits" and p: "prime_of_bits bits p" and "\<not> odd p"
  then have even: "2 dvd p" by simp
  have "(2::nat) ^ 2 \<le> 2 ^ (bits - 1)"
    using b by (intro power_increasing) auto
  with p have big: "4 \<le> p" by (simp add: prime_of_bits_def)
  then have "2 \<in> {1..p}" by simp
  with p even have "p = 2" by (auto simp: prime_of_bits_def)
  with big show False by simp
qed

lemma odd_index_char:
  assumes "k < 64" and "odd k"
  shows "randomStringSource ! k \<in> set odd_positions"
proof -
  from assms obtain j where j: "k = 2 * j + 1" "j < 32"
    by (auto elim!: oddE)
  have "\<forall>j<32. randomStringSource ! (2 * j + 1) = odd_positions ! j"
    by (simp add: randomStringSource_def odd_positions_def All_less_Suc numeral_eq_Suc)
  with j have "randomStringSource ! k = odd_positions ! j" by simp
  moreover have "length odd_positions = 32" by (simp add: odd_positions_def)
  ultimately show ?thesis using j nth_mem[of j odd_positions] by simp
qed

lemma RandomString_loop_odd:
  "\<forall>w p w1. Prime env 64 w = (Some p, w1) \<longrightarrow> odd p \<Longrightarrow>
   RandomString_loop env k w = (Inr s, w') \<Longrightarrow> set s \<subseteq> set odd_positions"
proof (induction k arbitrary: w s w')
  case 0
  then show ?case by simp
next
  case (Suc k)
  from Suc.prems(2) obtain p w1 cs
    where p: "Prime env 64 w = (Some p, w1)"
      and cs: "RandomString_loop env k w1 = (Inr cs, w')"
      and s: "s = randomStringSource ! (Uint64 p mod 64) # cs"
    by (auto simp: Let_def alphabet_length split: prod.splits option.splits sum.splits)
  from Suc.prems(1) p have "odd p" by blast
  then have "odd (Uint64 p mod 64)"
    by (simp add: Uint64_def odd_iff_mod_2_eq_one mod_mod_cancel)
  then have "randomStringSource ! (Uint64 p mod 64) \<in> set odd_positions"
    by (intro odd_index_char) simp_all
  moreover have "set cs \<subseteq> set odd_positions"
    using Suc.IH[OF Suc.prems(1) cs] .
  ultimately show ?case using s by simp
qed

text \<open>
  C3. The specification lets every one of the 64 characters of the alphabet occur at
  every position. The code does not: whenever the numbers drawn with
  \<open>rand.Prime(rand.Reader, 64)\<close> are odd, as primes of 64 bits are, \<open>x % 64\<close> is odd, so
  every character of the result stands at an odd index of \<open>randomStringSource\<close>. The 32
  characters at the even indices never occur; \<open>a\<close>, at index 0, is one of them.
\<close>

theorem RandomString_only_odd_positions:
  assumes "\<forall>w p w1. Prime env 64 w = (Some p, w1) \<longrightarrow> odd p"
    and "RandomString env t n w = (Inr s, t', w')"
  shows "set s \<subseteq> set odd_positions \<and> CHR ''a'' \<notin> set s"
proof -
  from assms(2) obtain w'' where "RandomString_loop env (nat n) w = (Inr s, w'')"
    by (auto simp: RandomString_def split: if_splits prod.splits sum.splits)
  from RandomString_loop_odd[OF assms(1) this] show ?thesis
    by (auto simp: odd_positions_def)
qed

theorem RandomString_only_odd_positions_witness:
  "RandomString (mem_sys no_files) zero_Tools 2 [] = (Inr ''ff'', zero_Tools, [])
     \<and> set ''ff'' \<subseteq> set odd_positions \<and> CHR ''a'' \<notin> set ''ff''"
proof -
  have draws: "\<forall>w p w1. Prime (mem_sys no_files) 64 w = (Some p, w1) \<longrightarrow> odd p"
    by (auto simp: mem_sys_def constant_source_def)
  have loop: "RandomString_loop (mem_sys no_files) 2 [] = (Inr ''ff'', [])"
    by (subst numeral_2_eq_2)
       (simp add: mem_sys_def constant_source_def randomStringSource_def Uint64_def)
  have run: "RandomString (mem_sys no_files) zero_Tools 2 [] = (Inr ''ff'', zero_Tools, [])"
    by (simp add: RandomString_def loop alloc_def) (simp add: mem_sys_def)
  from RandomString_only_odd_positions[OF draws run] run show ?thesis by simp
qed

section \<open>Properties of Slugify\<close>

lemma ReplaceAllString_collapse: "re_ReplaceAllString s [hyphen] = spec_collapse_runs s"
  by (induction s rule: spec_collapse_runs.induct) auto

lemma trimLeftByte_strip: "trimLeftByte s hyphen = spec_strip_leading s"
  by (induction s) (auto simp: trimLeftByte_def)

lemma strip_trailing_Nil: "spec_strip_trailing s = [] \<longleftrightarrow> (\<forall>x\<in>set s. x = hyphen)"
  by (induction s) (auto simp: Let_def)

lemma dropWhile_rev_strip:
  "dropWhile (\<lambda>x. x = hyphen) (rev s) = rev (spec_strip_trailing s)"
  by (induction s) (auto simp: Let_def dropWhile_append strip_trailing_Nil)

lemma trimRightByte_strip: "trimRightByte s hyphen = spec_strip_trailing s"
  by (simp add: trimRightByte_def dropWhile_rev_strip)

lemma Slugify_spec_slug:
  "fst (Slugify tbl t s) =
     (if s = [] then Inl (ErrorString ''empty string not permitted'')
      else let u = spec_slug tbl s
           in if u = []
              then Inl (ErrorString ''after removing unsafe characters, slug is zero length'')
              else Inr u)"
  by (simp add: Slugify_def spec_slug_def strings_Trim_def ReplaceAllString_collapse
      trimLeftByte_strip trimRightByte_strip Let_def)

lemmas slug_eval = runes_def strings_ToLower_def unicode_ToLower_def
  re_class_def hyphen_def spec_slug_def Let_def

lemma Slugify_valid_string:
  "fst (Slugify tbl t (runes ''Now is the Time!'')) = Inr (runes ''now-is-the-time'')"
  by (simp add: Slugify_spec_slug slug_eval)

lemma Slugify_japanese_and_roman:
  "(\<forall>r\<in>set japanese_sentence. tbl r = r) \<Longrightarrow>
   fst (Slugify tbl t (runes ''Hello world, '' @ japanese_sentence)) =
     Inr (runes ''hello-world'')"
  by (simp add: Slugify_spec_slug slug_eval japanese_sentence_def)

text \<open>
  C5. \<open>Slugify\<close> fails on the empty string with the empty-input error; otherwise it
  computes the slug the specification describes, fails with the empty-result error when
  that slug is empty and returns it when it is not. On the two examples:
  \<open>Slugify("Now is the Time!")\<close> is \<open>now-is-the-time\<close>, and the greeting followed by the
  Japanese sentence gives \<open>hello-world\<close>, the Japanese characters having no lower-case
  form (the case table leaves them as they are).
\<close>

theorem Slugify_meets_spec:
  "fst (Slugify tbl t s) =
     (if s = [] then Inl (ErrorString ''empty string not permitted'')
      else let u = spec_slug tbl s
           in if u = []
              then Inl (ErrorString ''after removing unsafe characters, slug is zero length'')
              else Inr u)
   \<and> fst (Slugify tbl t (runes ''Now is the Time!'')) = Inr (runes ''now-is-the-time'')
   \<and> ((\<forall>r\<in>set japanese_sentence. tbl r = r) \<longrightarrow>
        fst (Slugify tbl t (runes ''Hello world, '' @ japanese_sentence)) =
          Inr (runes ''hello-world''))"
  using Slugify_spec_slug Slugify_valid_string Slugify_japanese_and_roman by blast

theorem Slugify_meets_spec_witness:
  "fst (Slugify (\<lambda>r. r) zero_Tools (runes ''Hello world, '' @ japanese_sentence)) =
     Inr (runes ''hello-world'')
   \<and> fst (Slugify (\<lambda>r. r) zero_Tools japanese_sentence) =
     Inl (ErrorString ''after removing unsafe characters, slug is zero length'')"
  using Slugify_meets_spec[of "\<lambda>r. r" zero_Tools japanese_sentence]
  by (simp add: slug_eval japanese_sentence_def)

section \<open>Properties of UploadFiles and UploadOneFile\<close>

subsection \<open>An error empties the list\<close>

lemma store_part_error:
  "store_part env t dir rn hdr ufs w = (Inr (fs, Some e), t', w') \<Longrightarrow> fs = []"
  by (auto simp: store_part_def
      split: prod.splits option.splits sum.splits if_splits)

lemma upload_part_error:
  "upload_part env t dir rn hdr ufs w = (Inr (fs, Some e), t', w') \<Longrightarrow> fs = []"
  by (auto simp: upload_part_def Let_def
      split: prod.splits option.splits sum.splits if_splits dest: store_part_error)

lemma upload_headers_error:
  "upload_headers env t dir rn hdrs ufs w = (Inr (fs, Some e), t', w') \<Longrightarrow> fs = []"
proof (induction hdrs arbitrary: t ufs w)
  case Nil
  then show ?case by simp
next
  case (Cons hdr hdrs)
  then show ?case
    by (auto split: prod.splits option.splits sum.splits dest: upload_part_error)
qed

lemma upload_fields_error:
  "upload_fields env t dir rn entries ufs w = (Inr (fs, Some e), t', w') \<Longrightarrow> fs = []"
proof (induction entries arbitrary: t ufs w)
  case Nil
  then show ?case by simp
next
  case (Cons f entries)
  then show ?case
    by (cases f) (auto split: prod.splits option.splits sum.splits dest: upload_headers_error)
qed

lemma UploadFiles_error:
  "UploadFiles env t r dir rename w = (Inr (fs, Some e), t', w') \<Longrightarrow> fs = []"
  by (auto simp: UploadFiles_def Let_def
      split: prod.splits option.splits sum.splits dest: upload_fields_error)

lemma UploadFiles_rename:
  "UploadFiles env t r dir [if length rename > 0 then rename ! 0 else True] w =
   UploadFiles env t r dir rename w"
  by (simp add: UploadFiles_def)

lemma UploadOneFile_unfold:
  "UploadOneFile env t r dir rename w =
     (case UploadFiles env t r dir rename w of
        (Inl p, t1, w1) \<Rightarrow> (Inl p, t1, w1)
      | (Inr (files, Some err), t1, w1) \<Rightarrow> (Inr (None, Some err), t1, w1)
      | (Inr (files, None), t1, w1) \<Rightarrow>
          (if 0 < length files then (Inr (Some (files ! 0), None), t1, w1)
           else (Inl (IndexOutOfRange 0 (length files)), t1, w1)))"
  unfolding UploadOneFile_def Let_def UploadFiles_rename ..

text \<open>A run in memory: \<open>img.png\<close> is stored, then \<open>notes.txt\<close> is refused.\<close>

lemma run_two_files:
  "UploadFiles (mem_sys two_files) png_only some_request ''uploads'' [False] [] =
     (Inr ([], Some (ErrorString ''the uploaded file type is not permitted'')),
      png_only\<lparr>MaxFileSize := 1073741824\<rparr>,
      [(''uploads/img.png'', png_magic @ [0, 0])])"
  by (simp add: UploadFiles_def CreateDirIfNotExist_def mem_sys_def two_files_def img_png_def
      notes_txt_def png_only_def upload_part_def store_part_def sniff_buffer_def
      fileTypeAllowed_def sniff_def binary_byte_def png_magic_def fold_char_def Let_def)

text \<open>
  C1. The specification has \<open>UploadFiles\<close> return, with the error, the list of the
  files stored before the failing part. The code does not: whenever \<open>UploadFiles\<close> returns an error,
  the list it returns is empty, whatever was stored before, because the closure's
  \<open>return nil, err\<close> is assigned to \<open>uploadedFiles\<close> before \<open>return uploadedFiles, err\<close>.
  \<open>UploadOneFile\<close> returns just that error, as specified.
\<close>

theorem UploadFiles_error_loses_list:
  assumes "UploadFiles env t r dir rename w = (Inr (files, Some err), t', w')"
  shows "files = [] \<and> UploadOneFile env t r dir rename w = (Inr (None, Some err), t', w')"
  using assms UploadFiles_error[OF assms]
  by (simp add: UploadOneFile_unfold)

theorem UploadFiles_error_loses_list_witness:
  "UploadFiles (mem_sys two_files) png_only some_request ''uploads'' [False] [] =
     (Inr ([], Some (ErrorString ''the uploaded file type is not permitted'')),
      png_only\<lparr>MaxFileSize := 1073741824\<rparr>,
      [(''uploads/img.png'', content img_png)])
   \<and> fst (UploadOneFile (mem_sys two_files) png_only some_request ''uploads'' [False] []) =
     Inr (None, Some (ErrorString ''the uploaded file type is not permitted''))"
  using UploadFiles_error_loses_list[OF run_two_files] run_two_files
  by (simp add: img_png_def)

subsection \<open>The type check\<close>

lemma fold_allowed:
  "foldl (\<lambda>allowed x. if P x then True else allowed) b xs \<longleftrightarrow> b \<or> (\<exists>x\<in>set xs. P x)"
  by (induction xs arbitrary: b) auto

lemma fileTypeAllowed_iff:
  "fileTypeAllowed env t fileType \<longleftrightarrow>
     AllowedFileTypes t = [] \<or> (\<exists>x\<in>set (AllowedFileTypes t). EqualFold env fileType x)"
  by (auto simp: fileTypeAllowed_def fold_allowed)

lemma sniff_buffer_full: "512 \<le> length bs \<Longrightarrow> sniff_buffer bs = take 512 bs"
  by (simp add: sniff_buffer_def)

lemma sniff_buffer_short:
  "length bs < 512 \<Longrightarrow> sniff_buffer bs = bs @ replicate (512 - length bs) 0"
  by (simp add: sniff_buffer_def)

lemma upload_part_checked:
  assumes "Open env hdr w = (None, w1)"
    and "Read env hdr 512 w1 = ((bs, None), w2)"
  shows "upload_part env t dir rn hdr ufs w =
           (if AllowedFileTypes t = [] \<or>
               (\<exists>x\<in>set (AllowedFileTypes t).
                  EqualFold env (DetectContentType env (sniff_buffer bs)) x)
            then (case store_part env t dir rn hdr ufs w2 of
                    (res, t', w') \<Rightarrow> (res, t', Close env hdr w'))
            else (Inr ([], Some (ErrorString ''the uploaded file type is not permitted'')),
                  t, Close env hdr w2))"
  using assms by (simp add: upload_part_def Let_def fileTypeAllowed_iff)

text \<open>
  C8. The specification permits a part exactly when the type sniffed from its first 512
  bytes matches an entry of the allow-list. The code does not for a part of fewer than
  512 bytes: it sniffs the whole buffer of 512 bytes, the part's bytes and the zero bytes
  behind them, since it drops the count \<open>infile.Read\<close> returns. When the first part of
  the form is such a part and no entry of a non-empty allow-list matches the type of
  that padded buffer, \<open>UploadFiles\<close> fails with
  \<open>the uploaded file type is not permitted\<close>, whatever type the part's own bytes have.
\<close>

theorem UploadFiles_refuses_short_part:
  assumes "CreateDirIfNotExist env t dir w = (None, t, w1)"
    and "ParseMultipartForm env r (if MaxFileSize t = 0 then 1073741824 else MaxFileSize t) w1
           = (Inr form, w2)"
    and "File form = (key, hdr # hdrs) # rest"
    and "Open env hdr w2 = (None, w3)"
    and "Read env hdr 512 w3 = ((bs, None), w4)"
    and "length bs < 512"
    and "AllowedFileTypes t \<noteq> []"
    and "\<forall>x\<in>set (AllowedFileTypes t).
           \<not> EqualFold env (DetectContentType env (bs @ replicate (512 - length bs) 0)) x"
  shows "UploadFiles env t r dir rename w =
           (Inr ([], Some (ErrorString ''the uploaded file type is not permitted'')),
            (if MaxFileSize t = 0 then t\<lparr>MaxFileSize := 1073741824\<rparr> else t),
            Close env hdr w4)"
proof -
  define t1 where
    "t1 = (if MaxFileSize t = 0 then t\<lparr>MaxFileSize := 1024 * 1024 * 1024\<rparr> else t)"
  have dir: "CreateDirIfNotExist env t1 dir w = (None, t1, w1)"
    using assms(1)
    by (auto simp: CreateDirIfNotExist_def Let_def split: if_splits prod.splits option.splits)
  have size: "MaxFileSize t1 = (if MaxFileSize t = 0 then 1073741824 else MaxFileSize t)"
    by (simp add: t1_def)
  have types: "AllowedFileTypes t1 = AllowedFileTypes t"
    by (simp add: t1_def)
  have part: "upload_part env t1 dir rn hdr [] w2 =
      (Inr ([], Some (ErrorString ''the uploaded file type is not permitted'')),
       t1, Close env hdr w4)" for rn
    using upload_part_checked[OF assms(4,5), of t1 dir rn "[]"] assms(6,7,8)
    by (simp add: types sniff_buffer_short)
  have "UploadFiles env t r dir rename w =
      (Inr ([], Some (ErrorString ''the uploaded file type is not permitted'')),
       t1, Close env hdr w4)"
    using dir assms(2,3) size part
    by (simp add: UploadFiles_def Let_def flip: t1_def)
  then show ?thesis by (simp add: t1_def)
qed

theorem UploadFiles_refuses_short_part_witness:
  "DetectContentType (mem_sys one_note) (content notes_txt) = ''text/plain; charset=utf-8''
   \<and> AllowedFileTypes text_only = [''text/plain; charset=utf-8'']
   \<and> UploadFiles (mem_sys one_note) text_only some_request ''uploads'' [False] [] =
       (Inr ([], Some (ErrorString ''the uploaded file type is not permitted'')),
        text_only\<lparr>MaxFileSize := 1073741824\<rparr>, [])"
proof -
  have own: "DetectContentType (mem_sys one_note) (content notes_txt) =
      ''text/plain; charset=utf-8''"
    by (simp add: mem_sys_def notes_txt_def sniff_def binary_byte_def png_magic_def)
  have padded: "DetectContentType (mem_sys one_note)
      (content notes_txt @ replicate (512 - length (content notes_txt)) 0) =
      ''application/octet-stream''"
    by (simp add: mem_sys_def notes_txt_def sniff_def binary_byte_def png_magic_def)
  have dir: "CreateDirIfNotExist (mem_sys one_note) text_only ''uploads'' [] =
      (None, text_only, [])"
    by (simp add: CreateDirIfNotExist_def mem_sys_def)
  have parse: "ParseMultipartForm (mem_sys one_note) some_request
      (if MaxFileSize text_only = 0 then 1073741824 else MaxFileSize text_only) [] =
      (Inr one_note, [])"
    by (simp add: mem_sys_def)
  have parts: "File one_note = (''file'', notes_txt # []) # []"
    by (simp add: one_note_def)
  have opened: "Open (mem_sys one_note) notes_txt [] = (None, [])"
    by (simp add: mem_sys_def)
  have read: "Read (mem_sys one_note) notes_txt 512 [] = ((content notes_txt, None), [])"
    by (simp add: mem_sys_def notes_txt_def)
  have short: "length (content notes_txt) < 512"
    by (simp add: notes_txt_def)
  have listed: "AllowedFileTypes text_only \<noteq> []"
    by (simp add: text_only_def)
  have refused: "\<forall>x\<in>set (AllowedFileTypes text_only).
      \<not> EqualFold (mem_sys one_note) (DetectContentType (mem_sys one_note)
          (content notes_txt @ replicate (512 - length (content notes_txt)) 0)) x"
    unfolding padded by (simp add: mem_sys_def text_only_def fold_char_def)
  have run: "UploadFiles (mem_sys one_note) text_only some_request ''uploads'' [False] [] =
       (Inr ([], Some (ErrorString ''the uploaded file type is not permitted'')),
        (if MaxFileSize text_only = 0 then text_only\<lparr>MaxFileSize := 1073741824\<rparr>
         else text_only), Close (mem_sys one_note) notes_txt [])"
    using UploadFiles_refuses_short_part[OF dir parse parts opened read short listed refused] .
  from own run show ?thesis
    by (simp add: text_only_def mem_sys_def)
qed

subsection \<open>No file parts\<close>

lemma upload_fields_no_parts:
  "concat (map snd entries) = [] \<Longrightarrow>
   upload_fields env t dir rn entries ufs w = (Inr (ufs, None), t, w)"
  by (induction entries) auto

text \<open>
  C10. When the upload directory is there or can be made, the form parses and holds no
  file part, \<open>UploadFiles\<close> returns the empty list and a nil error, and \<open>UploadOneFile\<close>
  panics on \<open>files[0]\<close>, index 0 out of range for length 0, instead of returning an
  error.
\<close>

theorem UploadOneFile_no_files_panics:
  assumes "CreateDirIfNotExist env t dir w = (None, t, w1)"
    and "ParseMultipartForm env r (if MaxFileSize t = 0 then 1073741824 else MaxFileSize t) w1
           = (Inr form, w2)"
    and "concat (map snd (File form)) = []"
  shows "fst (UploadFiles env t r dir rename w) = Inr ([], None)
         \<and> fst (UploadOneFile env t r dir rename w) = Inl (IndexOutOfRange 0 0)"
proof -
  define t1 where
    "t1 = (if MaxFileSize t = 0 then t\<lparr>MaxFileSize := 1024 * 1024 * 1024\<rparr> else t)"
  have dir: "CreateDirIfNotExist env t1 dir w = (None, t1, w1)"
    using assms(1)
    by (auto simp: CreateDirIfNotExist_def Let_def split: if_splits prod.splits option.splits)
  have size: "MaxFileSize t1 = (if MaxFileSize t = 0 then 1073741824 else MaxFileSize t)"
    by (simp add: t1_def)
  have "UploadFiles env t r dir rename w = (Inr ([], None), t1, w2)"
    using dir assms(2,3) size
    by (simp add: UploadFiles_def Let_def upload_fields_no_parts flip: t1_def)
  then show ?thesis by (simp add: UploadOneFile_unfold)
qed

theorem UploadOneFile_no_files_panics_witness:
  "fst (UploadFiles (mem_sys no_files) zero_Tools some_request ''uploads'' [True] []) =
     Inr ([], None)
   \<and> fst (UploadOneFile (mem_sys no_files) zero_Tools some_request ''uploads'' [True] []) =
     Inl (IndexOutOfRange 0 0)"
  using UploadOneFile_no_files_panics[of "mem_sys no_files" zero_Tools "''uploads''" "[]" "[]"
      some_request no_files "[]" "[True]"]
  by (simp add: CreateDirIfNotExist_def mem_sys_def no_files_def zero_Tools_def)

section \<open>Properties of ReadJSON\<close>

lemma ReadJSON_ok_iff:
  "fst (ReadJSON env t r) = None \<longleftrightarrow>
     (\<exists>dec1 dec2. Decode env (body_decoder env t r) IntoData = (None, dec1)
        \<and> Decode env dec1 IntoEmptyStruct = (Some EOF, dec2))"
  by (auto simp: ReadJSON_def split: prod.splits option.splits)

lemma ReadJSON_second_value:
  "Decode env (body_decoder env t r) IntoData = (None, dec1) \<Longrightarrow>
   fst (Decode env dec1 IntoEmptyStruct) \<noteq> Some EOF \<Longrightarrow>
   fst (ReadJSON env t r) = Some (ErrorString ''body must contain only one JSON value'')"
  by (auto simp: ReadJSON_def split: prod.splits option.splits)

lemmas json_eval = ReadJSON_def body_decoder_def maxBytes_of_def recorded_json_def
  recorded_answers_def decode_failure_def Sprint_d_def HasPrefix_def TrimPrefix_def
  hello_world_def foo_bar_def two_values_def limit_5_def zero_Tools_def
  invalid_h_def too_large_def unknown_foo_def

text \<open>
  C6. \<open>ReadJSON\<close> succeeds exactly when the first \<open>Decode\<close> succeeds and the second one,
  into an empty struct, returns \<open>io.EOF\<close>. When the first succeeds and the second returns
  anything else (a further value, or an error other than \<open>io.EOF\<close>), \<open>ReadJSON\<close> fails
  with \<open>body must contain only one JSON value\<close>.
\<close>

theorem ReadJSON_exactly_one_value:
  "(fst (ReadJSON env t r) = None \<longleftrightarrow>
     (\<exists>dec1 dec2. Decode env (body_decoder env t r) IntoData = (None, dec1)
        \<and> Decode env dec1 IntoEmptyStruct = (Some EOF, dec2)))
   \<and> (\<forall>dec1. Decode env (body_decoder env t r) IntoData = (None, dec1)
        \<and> fst (Decode env dec1 IntoEmptyStruct) \<noteq> Some EOF
      \<longrightarrow> fst (ReadJSON env t r) =
            Some (ErrorString ''body must contain only one JSON value''))"
  using ReadJSON_ok_iff[of env t r] ReadJSON_second_value[of env t r] by blast

theorem ReadJSON_exactly_one_value_witness:
  "fst (ReadJSON recorded_json zero_Tools two_values) =
     Some (ErrorString ''body must contain only one JSON value'')
   \<and> fst (ReadJSON recorded_json zero_Tools foo_bar) = None"
  using ReadJSON_exactly_one_value[of recorded_json zero_Tools two_values]
    ReadJSON_exactly_one_value[of recorded_json zero_Tools foo_bar]
  by (simp add: json_eval)

lemma ReadJSON_too_large:
  "Decode env (body_decoder env t r) IntoData = (Some err, dec1) \<Longrightarrow>
   as_SyntaxError err = None \<Longrightarrow> \<not> errors_Is err ErrUnexpectedEOF \<Longrightarrow>
   as_UnmarshalTypeError err = None \<Longrightarrow> \<not> errors_Is err EOF \<Longrightarrow>
   Error err = ''http: request body too large'' \<Longrightarrow>
   fst (ReadJSON env t r) =
     Some (ErrorString (''body must not be larger than '' @ Sprint_d (maxBytes_of t)
             @ '' bytes''))"
  by (simp add: ReadJSON_def decode_failure_def HasPrefix_def)

lemma Sprint_d_5: "Sprint_d 5 = ''5''"
  by (simp add: Sprint_d_def decimal.simps digit_def)

text \<open>
  C7, as amended. The limit handed to \<open>http.MaxBytesReader\<close> is \<open>MaxJSONSize\<close> when that
  field is not zero and 1048576 when it is. When the first \<open>Decode\<close> stops on the
  reader's error \<open>http: request body too large\<close> (an error that is none of the kinds the
  \<open>switch\<close> looks for first), \<open>ReadJSON\<close> fails with
  \<open>body must not be larger than N bytes\<close>, \<open>N\<close> being that limit in decimal.
\<close>

theorem ReadJSON_size_limit:
  "maxBytes_of t = (if MaxJSONSize t \<noteq> 0 then MaxJSONSize t else 1048576)
   \<and> body_decoder env t r =
       (if \<not> AllowUnknownFields t then DisallowUnknownFields env else (\<lambda>dec. dec))
         (NewDecoder env (MaxBytesReader env (ReqBody r) (maxBytes_of t)))
   \<and> (\<forall>err dec1. Decode env (body_decoder env t r) IntoData = (Some err, dec1)
        \<and> as_SyntaxError err = None \<and> \<not> errors_Is err ErrUnexpectedEOF
        \<and> as_UnmarshalTypeError err = None \<and> \<not> errors_Is err EOF
        \<and> Error err = ''http: request body too large''
      \<longrightarrow> fst (ReadJSON env t r) =
            Some (ErrorString (''body must not be larger than '' @ Sprint_d (maxBytes_of t)
                    @ '' bytes'')))"
  using ReadJSON_too_large[of env t r]
  by (auto simp: maxBytes_of_def body_decoder_def Let_def)

theorem ReadJSON_size_limit_witness:
  "maxBytes_of zero_Tools = 1048576
   \<and> fst (ReadJSON recorded_json limit_5 foo_bar) =
       Some (ErrorString ''body must not be larger than 5 bytes'')"
  using ReadJSON_size_limit[of limit_5 recorded_json foo_bar]
    ReadJSON_size_limit[of zero_Tools recorded_json foo_bar]
  by (simp add: body_decoder_def maxBytes_of_def recorded_json_def recorded_answers_def
      hello_world_def foo_bar_def two_values_def limit_5_def zero_Tools_def too_large_def
      Sprint_d_5)

text \<open>
  As the specification states it, the property fails: the body \<open>hello world\<close> has 11
  bytes, the limit is 5, and the decoder reports the invalid first byte before the reader
  comes to its limit, so \<open>ReadJSON\<close> fails with the syntax error and not with the
  size-limit error.
\<close>

theorem ReadJSON_size_limit_counterexample:
  "int (length (ReqBody hello_world)) > maxBytes_of limit_5
   \<and> fst (ReadJSON recorded_json limit_5 hello_world) =
       Some (ErrorString ''body contains badly-formed JSON (at character 1)'')"
  by (simp add: json_eval decimal.simps digit_def)

section \<open>Properties of PushJSONToRemote\<close>

text \<open>
  C9, as amended. When the payload serialises, the request is built and the client
  returns a response, \<open>PushJSONToRemote\<close> returns that response, its status code and a
  nil error, and the deferred \<open>response.Body.Close()\<close> has closed the body of the
  response the caller receives.
\<close>

theorem PushJSONToRemote_returns_closed_body:
  assumes "marshal data = Inr jsonData"
    and "NewRequest env ''Post'' uri jsonData = Inr request"
    and "Do env (if length client > 0 then client ! 0 else NewClient env)
           (request\<lparr>ReqHeader :=
              (ReqHeader request)(''Content-Type'' \<mapsto> [''application/json''])\<rparr>) w
         = (Inr response, w1)"
  shows "PushJSONToRemote marshal env t uri data client w =
           ((Some (response\<lparr>Body := (Body response)\<lparr>closed := True\<rparr>\<rparr>),
             StatusCode response, None), t, w1)
         \<and> closed (Body (response\<lparr>Body := (Body response)\<lparr>closed := True\<rparr>\<rparr>))"
  using assms by (simp add: PushJSONToRemote_def Body_Close_def Let_def)

theorem PushJSONToRemote_returns_closed_body_witness:
  "PushJSONToRemote Inr test_client zero_Tools ''http://example.com/some/path''
     [0x7B, 0x7D] [] 0 =
     ((Some \<lparr>StatusCode = 200, Body = \<lparr>unread = [0x6F, 0x6B], closed = True\<rparr>\<rparr>, 200, None),
      zero_Tools, 1)"
  using PushJSONToRemote_returns_closed_body[of Inr "[0x7B, 0x7D]" "[0x7B, 0x7D]" test_client
      "''http://example.com/some/path''"
      "\<lparr>Method = ''Post'', URL = ''http://example.com/some/path'', Payload = [0x7B, 0x7D],
        ReqHeader = Map.empty\<rparr>"
      "[]" 0 ok_response 1 zero_Tools]
  by (simp add: test_client_def ok_response_def)

text \<open>
  As the specification states it, the property fails: the client hands over \<open>ok_response\<close> with its body open,
  and the response \<open>PushJSONToRemote\<close> returns is that response with its body closed.
\<close>

theorem PushJSONToRemote_body_open_counterexample:
  "closed (Body ok_response) = False
   \<and> fst (PushJSONToRemote Inr test_client zero_Tools ''http://example.com/some/path''
        [0x7B, 0x7D] [] 0) =
       (Some (ok_response\<lparr>Body := \<lparr>unread = [0x6F, 0x6B], closed = True\<rparr>\<rparr>), 200, None)"
  by (simp add: PushJSONToRemote_def Body_Close_def test_client_def ok_response_def)

section \<open>The receiver after a call\<close>

lemma store_part_receiver:
  "store_part env t dir rn hdr ufs w = (res, t', w') \<Longrightarrow> t' = t"
  by (auto simp: store_part_def
      split: prod.splits option.splits sum.splits if_splits dest: RandomString_receiver)

lemma upload_part_receiver:
  "upload_part env t dir rn hdr ufs w = (res, t', w') \<Longrightarrow> t' = t"
  by (auto simp: upload_part_def Let_def
      split: prod.splits option.splits sum.splits if_splits dest: store_part_receiver)

lemma upload_headers_receiver:
  "upload_headers env t dir rn hdrs ufs w = (res, t', w') \<Longrightarrow> t' = t"
proof (induction hdrs arbitrary: ufs w)
  case Nil
  then show ?case by simp
next
  case (Cons hdr hdrs)
  then show ?case
    by (auto split: prod.splits option.splits sum.splits dest!: upload_part_receiver)
qed

lemma upload_fields_receiver:
  "upload_fields env t dir rn entries ufs w = (res, t', w') \<Longrightarrow> t' = t"
proof (induction entries arbitrary: ufs w)
  case Nil
  then show ?case by simp
next
  case (Cons f entries)
  then show ?case
    by (cases f)
       (auto split: prod.splits option.splits sum.splits dest!: upload_headers_receiver)
qed

lemma CreateDirIfNotExist_receiver:
  "CreateDirIfNotExist env t path w = (res, t', w') \<Longrightarrow> t' = t"
  by (auto simp: CreateDirIfNotExist_def Let_def split: prod.splits option.splits if_splits)

lemma UploadFiles_receiver:
  assumes "UploadFiles env t r dir rename w = (res, t', w')"
  shows "t' = (if MaxFileSize t = 0 then t\<lparr>MaxFileSize := 1073741824\<rparr> else t)"
proof -
  define t1 where
    "t1 = (if MaxFileSize t = 0 then t\<lparr>MaxFileSize := 1024 * 1024 * 1024\<rparr> else t)"
  from assms have "t' = t1"
    by (auto simp: UploadFiles_def Let_def simp flip: t1_def
        split: prod.splits option.splits sum.splits
        dest!: CreateDirIfNotExist_receiver upload_fields_receiver)
  then show ?thesis by (simp add: t1_def)
qed

lemma UploadOneFile_receiver:
  assumes "UploadOneFile env t r dir rename w = (res, t', w')"
  shows "t' = (if MaxFileSize t = 0 then t\<lparr>MaxFileSize := 1073741824\<rparr> else t)"
proof -
  obtain res1 where "UploadFiles env t r dir rename w = (res1, t', w')"
    using assms
    by (auto simp: UploadOneFile_unfold split: prod.splits option.splits sum.splits if_splits)
  then show ?thesis by (rule UploadFiles_receiver)
qed

text \<open>
  C2, as amended. \<open>RandomString\<close>, \<open>CreateDirIfNotExist\<close>, \<open>Slugify\<close>,
  \<open>DownloadStaticFile\<close>, \<open>ReadJSON\<close>, \<open>WriteJSON\<close>, \<open>ErrorJSON\<close> and \<open>PushJSONToRemote\<close>
  leave the receiver as it was. \<open>UploadFiles\<close> and \<open>UploadOneFile\<close> leave
  \<open>AllowedFileTypes\<close>, \<open>MaxJSONSize\<close> and \<open>AllowUnknownFields\<close> as they were, and
  \<open>MaxFileSize\<close> too when it is not zero; a \<open>MaxFileSize\<close> of zero they replace by
  1073741824, whatever the call returns.
\<close>

theorem receiver_after_call:
  "fst (snd (RandomString env t n w)) = t
   \<and> fst (snd (CreateDirIfNotExist env t path w)) = t
   \<and> snd (Slugify tbl t s) = t
   \<and> fst (snd (DownloadStaticFile henv t rw r p file displayName w)) = t
   \<and> fst (snd (ReadJSON jenv t r)) = t
   \<and> fst (snd (WriteJSON marshal henv t rw status data headers)) = t
   \<and> fst (snd (ErrorJSON marshal' henv t rw err statuses)) = t
   \<and> fst (snd (PushJSONToRemote marshal cenv t uri data client w)) = t
   \<and> fst (snd (UploadFiles env t r dir rename w)) =
       (if MaxFileSize t = 0 then t\<lparr>MaxFileSize := 1073741824\<rparr> else t)
   \<and> fst (snd (UploadOneFile env t r dir rename w)) =
       (if MaxFileSize t = 0 then t\<lparr>MaxFileSize := 1073741824\<rparr> else t)"
proof -
  have 1: "fst (snd (RandomString env t n w)) = t"
    using RandomString_receiver[of env t n w] by (metis prod.collapse)
  have 2: "fst (snd (CreateDirIfNotExist env t path w)) = t"
    using CreateDirIfNotExist_receiver[of env t path w] by (metis prod.collapse)
  have 3: "snd (Slugify tbl t s) = t"
    by (simp add: Slugify_def Let_def)
  have 4: "fst (snd (DownloadStaticFile henv t rw r p file displayName w)) = t"
    by (simp add: DownloadStaticFile_def Let_def split: prod.splits)
  have 5: "fst (snd (ReadJSON jenv t r)) = t"
    by (simp add: ReadJSON_def split: prod.splits option.splits)
  have 6: "fst (snd (WriteJSON marshal henv t rw status data headers)) = t"
    by (simp add: WriteJSON_def Let_def split: prod.splits option.splits sum.splits)
  have 7: "fst (snd (ErrorJSON marshal' henv t rw err statuses)) = t"
    by (simp add: ErrorJSON_def Let_def WriteJSON_def
        split: prod.splits option.splits sum.splits)
  have 8: "fst (snd (PushJSONToRemote marshal cenv t uri data client w)) = t"
    by (simp add: PushJSONToRemote_def Let_def split: prod.splits option.splits sum.splits)
  have 9: "fst (snd (UploadFiles env t r dir rename w)) =
       (if MaxFileSize t = 0 then t\<lparr>MaxFileSize := 1073741824\<rparr> else t)"
    using UploadFiles_receiver[of env t r dir rename w] by (metis prod.collapse)
  have 10: "fst (snd (UploadOneFile env t r dir rename w)) =
       (if MaxFileSize t = 0 then t\<lparr>MaxFileSize := 1073741824\<rparr> else t)"
    using UploadOneFile_receiver[of env t r dir rename w] by (metis prod.collapse)
  from 1 2 3 4 5 6 7 8 9 10 show ?thesis by (intro conjI)
qed

text \<open>
  As the specification states it, the property fails: a call of \<open>UploadFiles\<close> on the
  zero value of \<open>Tools\<close> leaves \<open>MaxFileSize\<close> at 1073741824.
\<close>

theorem receiver_after_call_counterexample:
  "MaxFileSize zero_Tools = 0
   \<and> MaxFileSize (fst (snd (UploadFiles (mem_sys no_files) zero_Tools some_request
        ''uploads'' [] []))) = 1073741824"
  by (simp add: UploadFiles_def CreateDirIfNotExist_def mem_sys_def no_files_def
      zero_Tools_def Let_def)

end
